theory Spec2Isabelle
  imports Main "HOL-Library.Sublist"
begin

section \<open>VibeBeat: the playback and queue controller of vibebeat_pyqt.py\<close>

text \<open>
  The development embeds the controller part of \<^verbatim>\<open>VibeBeatApp\<close>: the fields set up in
  \<^verbatim>\<open>__init__\<close>, the slots wired in \<^verbatim>\<open>_wire_events\<close> and the search of
  \<^verbatim>\<open>_on_search\<close>. Python strings are modelled as lists of 8-bit code points (Latin-1),
  Python integers as \<^typ>\<open>int\<close>, the dictionary \<^verbatim>\<open>musicLibrary\<close> as an association list in
  insertion order, the set \<^verbatim>\<open>likedSongs\<close> as a set of integers. Glyphs outside Latin-1
  that the program writes on its buttons are values of a datatype.
\<close>

subsection \<open>Data model\<close>

text \<open>The dataclass \<^verbatim>\<open>Song\<close> (lines 15-26).\<close>

record song =
  song_id :: int
  title :: string
  artist :: string
  album :: string
  song_image :: string
  audio :: string
  duration :: string
  genre :: string
  year :: int
  liked :: bool

text \<open>The dictionaries appended to \<^verbatim>\<open>userPlaylists\<close> by \<^verbatim>\<open>_create_playlist\<close>.\<close>

record user_playlist =
  pl_id :: int
  pl_name :: string
  pl_songs :: "int list"
  pl_description :: string

datatype py_error = IndexError

subsection \<open>The media backend (QMediaPlayer)\<close>

text \<open>
  The program drives an external player object. Its model keeps what the program reads
  back (\<^verbatim>\<open>volume()\<close>, \<^verbatim>\<open>state()\<close>, \<^verbatim>\<open>duration()\<close>), the loaded media, and the list
  of the calls it has received, oldest first. \<^verbatim>\<open>_seek_position\<close> computes its target with
  floating point arithmetic, \<^verbatim>\<open>int(dur * (value / 1000.0))\<close>; the call is recorded with
  its two integer inputs and is not evaluated.
\<close>

datatype media_state = StoppedState | PlayingState | PausedState

datatype media_status =
  UnknownMediaStatus | NoMedia | LoadingMedia | LoadedMedia | StalledMedia
  | BufferingMedia | BufferedMedia | EndOfMedia | InvalidMedia

datatype command =
  SetMedia string | Play | Pause | SetVolume int | SetPosition int
  | SetPositionScaled int int

record player =
  p_volume :: int
  p_state :: media_state
  p_media :: "string option"
  p_duration :: int
  commands :: "command list"

definition clamp_volume :: "int \<Rightarrow> int" where
  "clamp_volume v = max 0 (min 100 v)"

text \<open>A player as constructed: nothing loaded, stopped, full volume, no call received.\<close>

definition new_player :: player where
  "new_player = \<lparr>p_volume = 100, p_state = StoppedState, p_media = None,
                  p_duration = 0, commands = []\<rparr>"

text \<open>The player keeps its volume within 0..100.\<close>

definition player_setVolume :: "int \<Rightarrow> player \<Rightarrow> player" where
  "player_setVolume v p =
     p\<lparr>p_volume := clamp_volume v, commands := commands p @ [SetVolume v]\<rparr>"

definition player_setMedia :: "string \<Rightarrow> player \<Rightarrow> player" where
  "player_setMedia url p = p\<lparr>p_media := Some url, commands := commands p @ [SetMedia url]\<rparr>"

text \<open>With no media loaded there is nothing to play or pause: the state stays as it is.\<close>

definition player_play :: "player \<Rightarrow> player" where
  "player_play p =
     p\<lparr>p_state := (if p_media p = None then p_state p else PlayingState),
       commands := commands p @ [Play]\<rparr>"

definition player_pause :: "player \<Rightarrow> player" where
  "player_pause p =
     p\<lparr>p_state := (if p_media p = None then p_state p else PausedState),
       commands := commands p @ [Pause]\<rparr>"

definition player_setPosition :: "int \<Rightarrow> player \<Rightarrow> player" where
  "player_setPosition ms p = p\<lparr>commands := commands p @ [SetPosition ms]\<rparr>"

definition player_setPositionScaled :: "int \<Rightarrow> int \<Rightarrow> player \<Rightarrow> player" where
  "player_setPositionScaled dur v p = p\<lparr>commands := commands p @ [SetPositionScaled dur v]\<rparr>"

subsection \<open>Widgets\<close>

text \<open>
  Button captions: the heart of the like button, the play/pause caption, the three
  speaker tiers of the mute button.
\<close>

datatype glyph =
  HeartOutline | HeartFull | PlayGlyph | PauseGlyph
  | SpeakerMuted | SpeakerLow | SpeakerHigh

text \<open>
  A Qt button. \<^verbatim>\<open>setChecked\<close> changes the checked state of a checkable button only; a
  button is checkable after \<^verbatim>\<open>setCheckable(True)\<close>, which the program calls for its
  navigation buttons and filter chips (lines 184, 326) and for no other button.
\<close>

record button =
  checkable :: bool
  checked :: bool
  caption :: glyph

definition button_setChecked :: "bool \<Rightarrow> button \<Rightarrow> button" where
  "button_setChecked b w = (if checkable w then w\<lparr>checked := b\<rparr> else w)"

definition button_setText :: "glyph \<Rightarrow> button \<Rightarrow> button" where
  "button_setText g w = w\<lparr>caption := g\<rparr>"

text \<open>The children of the search result layout: labels and song rows.\<close>

datatype widget = Label string | ListRow song

datatype page =
  PageHome | PageSearch | PageLibrary | PagePlaylists | PageLiked | PageSettings

subsection \<open>The application state\<close>

text \<open>
  The fields of \<^verbatim>\<open>VibeBeatApp\<close> that the controller reads or writes. \<^verbatim>\<open>prevVol\<close> is the
  attribute \<^verbatim>\<open>_prevVol\<close>, absent (\<open>None\<close>) until \<^verbatim>\<open>_toggle_mute\<close> first stores it;
  \<^verbatim>\<open>volume\<close> is the value of the volume slider, \<^verbatim>\<open>notices\<close> the message boxes shown
  (title and text). \<^verbatim>\<open>MULTIMEDIA_AVAILABLE\<close> is the module constant set by the import at
  lines 7-12. The grids of the home, library, liked and playlist pages and the progress
  slider are rebuilt from these fields and never read back; they are not part of the state.
\<close>

record app =
  MULTIMEDIA_AVAILABLE :: bool
  musicLibrary :: "(int \<times> song) list"
  playlist :: "song list"
  currentIndex :: int
  isShuffled :: bool
  isRepeated :: bool
  likedSongs :: "int set"
  userPlaylists :: "user_playlist list"
  player :: "player option"
  prevVol :: "int option"
  seekingActive :: bool
  trackTitle :: string
  trackArtist :: string
  likeBtn :: button
  playBtn :: glyph
  muteBtn :: glyph
  volume :: int
  currentTimeLbl :: string
  totalTimeLbl :: string
  searchClearVisible :: bool
  searchResults :: "widget list"
  playlistList :: "string list"
  notices :: "(string \<times> string) list"

text \<open>Python dictionaries: \<^verbatim>\<open>d.get(k)\<close>, \<^verbatim>\<open>d[k] = v\<close>, \<^verbatim>\<open>d.values()\<close>, \<^verbatim>\<open>d.keys()\<close>.\<close>

definition dict_get :: "('k \<times> 'v) list \<Rightarrow> 'k \<Rightarrow> 'v option" where
  "dict_get d k = map_of d k"

fun dict_set :: "('k \<times> 'v) list \<Rightarrow> 'k \<Rightarrow> 'v \<Rightarrow> ('k \<times> 'v) list" where
  "dict_set [] k v = [(k, v)]"
| "dict_set ((k', v') # d) k v = (if k' = k then (k, v) # d else (k', v') # dict_set d k v)"

definition dict_values :: "('k \<times> 'v) list \<Rightarrow> 'v list" where
  "dict_values d = map snd d"

definition dict_keys :: "('k \<times> 'v) list \<Rightarrow> 'k list" where
  "dict_keys d = map fst d"

text \<open>Python list indexing \<^verbatim>\<open>xs[i]\<close>: a negative index counts from the end.\<close>

definition py_index :: "'a list \<Rightarrow> int \<Rightarrow> py_error + 'a" where
  "py_index xs i =
     (if 0 \<le> i \<and> i < int (length xs) then Inr (xs ! nat i)
      else if i < 0 \<and> - int (length xs) \<le> i then Inr (xs ! nat (int (length xs) + i))
      else Inl IndexError)"

subsection \<open>Initial state\<close>

text \<open>The demo tracks of \<^verbatim>\<open>_load_library\<close> (lines 464-481).\<close>

definition demo :: "song list" where
  "demo =
    [\<lparr>song_id = 1, title = ''Night Vibes'', artist = ''Chill Beats'',
      album = ''Ambient Collection'',
      song_image = ''https://i.scdn.co/image/ab67616d0000b2736dafe7cc3b0811b46c7f6617'',
      audio = ''https://www.soundjay.com/misc/sounds/bell-ringing-05.wav'',
      duration = ''3:45'', genre = ''Ambient'', year = 2024, liked = False\<rparr>,
     \<lparr>song_id = 2, title = ''Pop Energy'', artist = ''Pop Mix'', album = ''Hits 2024'',
      song_image = ''https://i.scdn.co/image/ab67616d0000b27346eb72bcf13c7b82cf67d3f8'',
      audio = ''https://www.soundjay.com/misc/sounds/bell-ringing-05.wav'',
      duration = ''2:30'', genre = ''Pop'', year = 2024, liked = False\<rparr>,
     \<lparr>song_id = 3, title = ''Rock Classics'', artist = ''Rock Legends'',
      album = ''Greatest Hits'',
      song_image = ''https://i.scdn.co/image/ab67616d0000b273d911c299fbb92c28e9a99217'',
      audio = ''https://www.soundjay.com/misc/sounds/bell-ringing-05.wav'',
      duration = ''4:12'', genre = ''Rock'', year = 2024, liked = False\<rparr>,
     \<lparr>song_id = 4, title = ''Lofi Chill'', artist = ''Study Vibes'', album = ''Focus Music'',
      song_image = ''https://i.scdn.co/image/ab67616d0000b273f76b3f8afcd46e3f9ec99438'',
      audio = ''https://www.soundjay.com/misc/sounds/bell-ringing-05.wav'',
      duration = ''3:20'', genre = ''Lofi'', year = 2024, liked = False\<rparr>]"

definition load_library :: "(int \<times> song) list \<Rightarrow> (int \<times> song) list" where
  "load_library d = fold (\<lambda>s d'. dict_set d' (song_id s) s) demo d"

text \<open>
  \<^verbatim>\<open>__init__\<close> (lines 30-59) with the widgets of \<^verbatim>\<open>_build_bottom_player\<close>; the argument
  is the value of \<^verbatim>\<open>MULTIMEDIA_AVAILABLE\<close>. The player exists only when the import
  succeeded, and then receives \<^verbatim>\<open>setVolume(70)\<close>.
\<close>

definition init :: "bool \<Rightarrow> app" where
  "init avail =
    \<lparr>MULTIMEDIA_AVAILABLE = avail,
     musicLibrary = load_library [],
     playlist = [],
     currentIndex = - 1,
     isShuffled = False,
     isRepeated = False,
     likedSongs = {},
     userPlaylists = [],
     player = (if avail then Some (player_setVolume 70 new_player) else None),
     prevVol = None,
     seekingActive = False,
     trackTitle = ''Select a song'',
     trackArtist = ''VibeBeat'',
     likeBtn = \<lparr>checkable = False, checked = False, caption = HeartOutline\<rparr>,
     playBtn = PlayGlyph,
     muteBtn = SpeakerHigh,
     volume = 70,
     currentTimeLbl = ''0:00'',
     totalTimeLbl = ''0:00'',
     searchClearVisible = True,
     searchResults = [],
     playlistList = [],
     notices = []\<rparr>"

subsection \<open>Playing a song\<close>

text \<open>\<^verbatim>\<open>_play_song\<close> (lines 781-806).\<close>

definition show_audio_unavailable :: "app \<Rightarrow> app" where
  "show_audio_unavailable s =
     s\<lparr>notices := notices s @
        [(''Audio unavailable'',
          ''Audio playback isn't available in this environment. The UI will still work.'')]\<rparr>"

definition play_song :: "app \<Rightarrow> int \<Rightarrow> app" where
  "play_song s sid =
     (case dict_get (musicLibrary s) sid of
        None \<Rightarrow> s
      | Some sg \<Rightarrow>
          let s1 = s\<lparr>playlist := [sg], currentIndex := 0\<rparr>;
              s2 = (case player s1 of
                      Some p \<Rightarrow>
                        if MULTIMEDIA_AVAILABLE s1
                        then s1\<lparr>player := Some (player_play (player_setMedia (audio sg) p))\<rparr>
                        else show_audio_unavailable s1
                    | None \<Rightarrow> show_audio_unavailable s1)
          in s2\<lparr>trackTitle := title sg,
                trackArtist := artist sg,
                likeBtn := button_setChecked (sid \<in> likedSongs s2) (likeBtn s2),
                playBtn := PauseGlyph\<rparr>)"

subsection \<open>Transport controls\<close>

text \<open>\<^verbatim>\<open>_toggle_play\<close> (lines 808-816).\<close>

definition toggle_play :: "app \<Rightarrow> app" where
  "toggle_play s =
     (case player s of
        None \<Rightarrow>
          s\<lparr>notices := notices s @
             [(''Audio unavailable'', ''Cannot play without multimedia backend.'')]\<rparr>
      | Some p \<Rightarrow>
          if MULTIMEDIA_AVAILABLE s \<and> p_state p = PlayingState
          then s\<lparr>player := Some (player_pause p)\<rparr>
          else s\<lparr>player := Some (player_play p)\<rparr>)"

text \<open>
  \<^verbatim>\<open>_prev\<close> and \<^verbatim>\<open>_next\<close> (lines 818-826). The subscript \<^verbatim>\<open>self.playlist[...]\<close> raises
  \<^verbatim>\<open>IndexError\<close> outside the list.
\<close>

definition prev :: "app \<Rightarrow> py_error + app" where
  "prev s =
     (if currentIndex s > 0
      then let s1 = s\<lparr>currentIndex := currentIndex s - 1\<rparr>
           in (case py_index (playlist s1) (currentIndex s1) of
                 Inl e \<Rightarrow> Inl e
               | Inr sg \<Rightarrow> Inr (play_song s1 (song_id sg)))
      else Inr s)"

definition "next" :: "app \<Rightarrow> py_error + app" where
  "next s =
     (if currentIndex s < int (length (playlist s)) - 1
      then let s1 = s\<lparr>currentIndex := currentIndex s + 1\<rparr>
           in (case py_index (playlist s1) (currentIndex s1) of
                 Inl e \<Rightarrow> Inl e
               | Inr sg \<Rightarrow> Inr (play_song s1 (song_id sg)))
      else Inr s)"

text \<open>\<^verbatim>\<open>_toggle_shuffle\<close>, \<^verbatim>\<open>_toggle_repeat\<close> (lines 828-832).\<close>

definition toggle_shuffle :: "app \<Rightarrow> app" where
  "toggle_shuffle s = s\<lparr>isShuffled := \<not> isShuffled s\<rparr>"

definition toggle_repeat :: "app \<Rightarrow> app" where
  "toggle_repeat s = s\<lparr>isRepeated := \<not> isRepeated s\<rparr>"

text \<open>\<^verbatim>\<open>_toggle_like\<close> (lines 834-844).\<close>

definition toggle_like :: "app \<Rightarrow> py_error + app" where
  "toggle_like s =
     (if currentIndex s < 0 \<or> playlist s = [] then Inr s
      else (case py_index (playlist s) (currentIndex s) of
              Inl e \<Rightarrow> Inl e
            | Inr sg \<Rightarrow>
                let sid = song_id sg
                in if sid \<in> likedSongs s
                   then Inr (s\<lparr>likedSongs := likedSongs s - {sid},
                               likeBtn := button_setText HeartOutline (likeBtn s)\<rparr>)
                   else Inr (s\<lparr>likedSongs := insert sid (likedSongs s),
                               likeBtn := button_setText HeartFull (likeBtn s)\<rparr>)))"

subsection \<open>Volume and mute\<close>

text \<open>\<^verbatim>\<open>_set_volume\<close> (lines 846-855).\<close>

definition set_volume :: "app \<Rightarrow> int \<Rightarrow> app" where
  "set_volume s v =
     (let v = max 0 (min 100 v);
          s1 = (case player s of
                  Some p \<Rightarrow> s\<lparr>player := Some (player_setVolume v p)\<rparr>
                | None \<Rightarrow> s)
      in s1\<lparr>muteBtn := (if v = 0 then SpeakerMuted
                         else if v < 50 then SpeakerLow else SpeakerHigh)\<rparr>)"

text \<open>
  \<^verbatim>\<open>self.volume.setValue(v)\<close>: the slider has the range 0..100 (line 428), bounds the
  value to it and, when its value changes, emits \<^verbatim>\<open>valueChanged\<close>, which line 506
  connects to \<^verbatim>\<open>_set_volume\<close>.
\<close>

definition volume_setValue :: "int \<Rightarrow> app \<Rightarrow> app" where
  "volume_setValue v s =
     (let v' = max 0 (min 100 v)
      in if v' = volume s then s else set_volume (s\<lparr>volume := v'\<rparr>) v')"

text \<open>\<^verbatim>\<open>getattr(self, "_prevVol", 70)\<close>.\<close>

definition getattr_prevVol :: "app \<Rightarrow> int" where
  "getattr_prevVol s = (case prevVol s of None \<Rightarrow> 70 | Some m \<Rightarrow> m)"

text \<open>\<^verbatim>\<open>_toggle_mute\<close> (lines 857-874).\<close>

definition toggle_mute :: "app \<Rightarrow> app" where
  "toggle_mute s =
     (case player s of
        None \<Rightarrow>
          let vol = volume s
          in if vol = 0 then volume_setValue (getattr_prevVol s) s
             else volume_setValue 0 (s\<lparr>prevVol := Some vol\<rparr>)
      | Some p \<Rightarrow>
          let vol = p_volume p
          in if vol = 0
             then let s1 = s\<lparr>player := Some (player_setVolume (getattr_prevVol s) p)\<rparr>
                  in volume_setValue (getattr_prevVol s1) s1
             else let s1 = s\<lparr>prevVol := Some vol\<rparr>;
                      s2 = s1\<lparr>player := Some (player_setVolume 0 p)\<rparr>
                  in volume_setValue 0 s2)"

text \<open>The value \<^verbatim>\<open>_toggle_mute\<close> reads as \<^verbatim>\<open>vol\<close> (lines 860 and 867).\<close>

definition current_volume :: "app \<Rightarrow> int" where
  "current_volume s = (case player s of None \<Rightarrow> volume s | Some p \<Rightarrow> p_volume p)"

subsection \<open>Backend callbacks and seeking\<close>

text \<open>Decimal rendering of a natural number, as the format string of line 880 prints it.\<close>

definition digit_char :: "nat \<Rightarrow> char" where
  "digit_char d = char_of (48 + d)"

function show_nat :: "nat \<Rightarrow> string" where
  "show_nat n = (if n < 10 then [digit_char n] else show_nat (n div 10) @ [digit_char (n mod 10)])"
  by pat_completeness auto
termination
  by (relation "measure (\<lambda>n. n)") auto

text \<open>\<^verbatim>\<open>_format_time\<close> (lines 876-880): \<^verbatim>\<open>//\<close> is floor division, as \<open>div\<close> on \<^typ>\<open>int\<close>.\<close>

definition format_time :: "int \<Rightarrow> string" where
  "format_time ms =
     (let secs = max 0 (ms div 1000);
          m = secs div 60;
          sec = secs mod 60
      in show_nat (nat m) @ '':'' @
         (if sec < 10 then ''0'' @ show_nat (nat sec) else show_nat (nat sec)))"

text \<open>
  \<^verbatim>\<open>_on_position_changed\<close> (lines 882-888): the progress slider is not part of the state,
  the elapsed-time label is written in every case.
\<close>

definition on_position_changed :: "app \<Rightarrow> int \<Rightarrow> app" where
  "on_position_changed s pos = s\<lparr>currentTimeLbl := format_time pos\<rparr>"

definition on_duration_changed :: "app \<Rightarrow> int \<Rightarrow> app" where
  "on_duration_changed s dur = s\<lparr>totalTimeLbl := format_time dur\<rparr>"

text \<open>\<^verbatim>\<open>_on_play_state\<close> (lines 893-898).\<close>

definition on_play_state :: "app \<Rightarrow> media_state \<Rightarrow> app" where
  "on_play_state s st =
     (let playing = (MULTIMEDIA_AVAILABLE s \<and> st = PlayingState)
      in s\<lparr>playBtn := (if playing then PauseGlyph else PlayGlyph)\<rparr>)"

text \<open>\<^verbatim>\<open>_on_media_status\<close> (lines 900-908).\<close>

definition on_media_status :: "app \<Rightarrow> media_status \<Rightarrow> app" where
  "on_media_status s status =
     (case player s of
        None \<Rightarrow> s
      | Some p \<Rightarrow>
          if MULTIMEDIA_AVAILABLE s \<and> status = EndOfMedia \<and> isRepeated s
          then s\<lparr>player := Some (player_play (player_setPosition 0 p))\<rparr>
          else s)"

text \<open>\<^verbatim>\<open>_seeking\<close> and \<^verbatim>\<open>_seek_position\<close> (lines 910-917).\<close>

definition seeking :: "app \<Rightarrow> bool \<Rightarrow> app" where
  "seeking s active = s\<lparr>seekingActive := active\<rparr>"

definition seek_position :: "app \<Rightarrow> int \<Rightarrow> app" where
  "seek_position s v =
     (case player s of
        None \<Rightarrow> s
      | Some p \<Rightarrow> s\<lparr>player := Some (player_setPositionScaled (p_duration p) v p)\<rparr>)"

subsection \<open>Search\<close>

text \<open>
  \<^verbatim>\<open>str.strip()\<close> removes leading and trailing whitespace, \<^verbatim>\<open>str.lower()\<close> maps each
  upper-case letter to its lower-case letter; both are given here on the Latin-1 code
  points. \<^verbatim>\<open>a in b\<close> on strings tests for a contiguous occurrence.
\<close>

definition py_isspace :: "char \<Rightarrow> bool" where
  "py_isspace c =
     (let n = (of_char c :: nat)
      in (9 \<le> n \<and> n \<le> 13) \<or> (28 \<le> n \<and> n \<le> 32) \<or> n = 133 \<or> n = 160)"

definition py_strip :: "string \<Rightarrow> string" where
  "py_strip s = rev (dropWhile py_isspace (rev (dropWhile py_isspace s)))"

definition lower_char :: "char \<Rightarrow> char" where
  "lower_char c =
     (let n = (of_char c :: nat)
      in if (65 \<le> n \<and> n \<le> 90) \<or> (192 \<le> n \<and> n \<le> 222 \<and> n \<noteq> 215)
         then char_of (n + 32) else c)"

definition py_lower :: "string \<Rightarrow> string" where
  "py_lower s = map lower_char s"

fun py_in :: "string \<Rightarrow> string \<Rightarrow> bool" where
  "py_in t [] = (t = [])"
| "py_in t (c # cs) = (take (length t) (c # cs) = t \<or> py_in t cs)"

text \<open>\<^verbatim>\<open>_set_search_results\<close> (lines 733-741) replaces the children of the result layout.\<close>

definition set_search_results :: "app \<Rightarrow> widget list \<Rightarrow> app" where
  "set_search_results s ws = s\<lparr>searchResults := ws\<rparr>"

text \<open>\<^verbatim>\<open>_show_search_placeholder\<close> (lines 714-715).\<close>

definition show_search_placeholder :: "app \<Rightarrow> app" where
  "show_search_placeholder s = set_search_results s [Label ''Search for music'']"

text \<open>
  \<^verbatim>\<open>_on_search\<close> (lines 717-731); \<^verbatim>\<open>_build_list_row(s)\<close> is the row \<open>ListRow s\<close>. The
  label of an empty result quotes the stripped, lower-cased text between apostrophes.
\<close>

definition no_results_label :: "string \<Rightarrow> widget" where
  "no_results_label text = Label (''No results for '' @ [CHR 0x27] @ text @ [CHR 0x27])"

definition on_search :: "app \<Rightarrow> string \<Rightarrow> app" where
  "on_search s text0 =
     (let text = py_lower (py_strip text0)
      in if text = []
         then show_search_placeholder (s\<lparr>searchClearVisible := False\<rparr>)
         else let s1 = s\<lparr>searchClearVisible := True\<rparr>;
                  results = filter (\<lambda>sg. py_in text (py_lower (title sg))
                                        \<or> py_in text (py_lower (artist sg))
                                        \<or> py_in text (py_lower (album sg)))
                                   (dict_values (musicLibrary s1))
              in if results = []
                 then set_search_results s1 [no_results_label text]
                 else set_search_results s1 (map ListRow results))"

subsection \<open>Upload, playlists, navigation\<close>

text \<open>
  \<^verbatim>\<open>_upload_song\<close> (lines 744-768). The file dialog, the file name handling and the
  clock are outside the program: a cancelled dialog is \<open>None\<close>, an accepted one gives the
  title (base name without extension), the URL of the file and the current year.
\<close>

definition next_id :: "(int \<times> song) list \<Rightarrow> int" where
  "next_id d = (case dict_keys d of [] \<Rightarrow> 1000 | k # ks \<Rightarrow> fold max ks k) + 1"

definition upload_song :: "app \<Rightarrow> (string \<times> string \<times> int) option \<Rightarrow> app" where
  "upload_song s choice =
     (case choice of
        None \<Rightarrow> s
      | Some (ttl, url, yr) \<Rightarrow>
          let new_id = next_id (musicLibrary s);
              sg = \<lparr>song_id = new_id, title = ttl, artist = ''Local File'',
                    album = ''Uploads'', song_image = [], audio = url, duration = [],
                    genre = [], year = yr, liked = False\<rparr>;
              s1 = s\<lparr>musicLibrary := dict_set (musicLibrary s) new_id sg\<rparr>
          in play_song s1 new_id)"

text \<open>
  \<^verbatim>\<open>_create_playlist\<close> (lines 771-778): the dialog gives the text and whether it was
  accepted, the clock gives the identifier.
\<close>

definition create_playlist :: "app \<Rightarrow> string \<Rightarrow> bool \<Rightarrow> int \<Rightarrow> app" where
  "create_playlist s name ok now =
     (if \<not> ok \<or> py_strip name = [] then s
      else let pl = \<lparr>pl_id = now, pl_name = py_strip name, pl_songs = [],
                     pl_description = []\<rparr>
           in s\<lparr>userPlaylists := userPlaylists s @ [pl],
                playlistList := playlistList s @ [py_strip name]\<rparr>)"

text \<open>
  \<^verbatim>\<open>_go_page\<close> (lines 533-545): of the pages it fills, only the search page is part of
  the state.
\<close>

definition go_page :: "app \<Rightarrow> page \<Rightarrow> app" where
  "go_page s pg = (if pg = PageSearch then show_search_placeholder s else s)"

subsection \<open>Events\<close>

text \<open>
  The signals connected in \<^verbatim>\<open>_wire_events\<close> and by the play buttons of the song cards
  and rows. The four player signals are connected only when the player exists (lines
  513-517); a state or duration signal carries the value the player then reports.
\<close>

datatype event =
  GoPage page
  | SearchText string
  | PlaySong int
  | TogglePlay | Prev | Next | ToggleShuffle | ToggleRepeat | ToggleLike
  | VolumeSlider int
  | ToggleMute
  | Seeking bool
  | SeekPosition int
  | PositionChanged int
  | DurationChanged int
  | StateChanged media_state
  | MediaStatusChanged media_status
  | UploadSong "(string \<times> string \<times> int) option"
  | CreatePlaylist string bool int

fun step :: "event \<Rightarrow> app \<Rightarrow> py_error + app" where
  "step (GoPage pg) s = Inr (go_page s pg)"
| "step (SearchText t) s = Inr (on_search s t)"
| "step (PlaySong i) s = Inr (play_song s i)"
| "step TogglePlay s = Inr (toggle_play s)"
| "step Prev s = prev s"
| "step Next s = next s"
| "step ToggleShuffle s = Inr (toggle_shuffle s)"
| "step ToggleRepeat s = Inr (toggle_repeat s)"
| "step ToggleLike s = toggle_like s"
| "step (VolumeSlider v) s = Inr (volume_setValue v s)"
| "step ToggleMute s = Inr (toggle_mute s)"
| "step (Seeking b) s = Inr (seeking s b)"
| "step (SeekPosition v) s = Inr (seek_position s v)"
| "step (PositionChanged pos) s =
     (case player s of None \<Rightarrow> Inr s | Some p \<Rightarrow> Inr (on_position_changed s pos))"
| "step (DurationChanged d) s =
     (case player s of
        None \<Rightarrow> Inr s
      | Some p \<Rightarrow> Inr (on_duration_changed (s\<lparr>player := Some (p\<lparr>p_duration := d\<rparr>)\<rparr>) d))"
| "step (StateChanged st) s =
     (case player s of
        None \<Rightarrow> Inr s
      | Some p \<Rightarrow> Inr (on_play_state (s\<lparr>player := Some (p\<lparr>p_state := st\<rparr>)\<rparr>) st))"
| "step (MediaStatusChanged m) s =
     (case player s of None \<Rightarrow> Inr s | Some p \<Rightarrow> Inr (on_media_status s m))"
| "step (UploadSong c) s = Inr (upload_song s c)"
| "step (CreatePlaylist name ok now) s = Inr (create_playlist s name ok now)"

text \<open>A sequence of events, stopping at the first exception.\<close>

fun run :: "event list \<Rightarrow> app \<Rightarrow> py_error + app" where
  "run [] s = Inr s"
| "run (e # es) s = (case step e s of Inl err \<Rightarrow> Inl err | Inr s' \<Rightarrow> run es s')"

subsection \<open>Predicates and sample states used in the statements\<close>






section \<open>Properties\<close>

subsection \<open>Auxiliary facts\<close>

lemma init_library_keys: "dict_keys (musicLibrary (init a)) = [1, 2, 3, 4]"
  by (simp add: init_def load_library_def demo_def dict_keys_def)

lemma init_queue: "playlist (init a) = []" "currentIndex (init a) = - 1"
  by (simp_all add: init_def)












lemma init_library_get:
  "dict_get (musicLibrary (init a)) 1 = Some (demo ! 0)"
  "dict_get (musicLibrary (init a)) 2 = Some (demo ! 1)"
  by (simp_all add: init_def load_library_def demo_def dict_get_def)

lemma init_player:
  "player (init True) = Some (player_setVolume 70 new_player)"
  "player (init False) = None"
  "MULTIMEDIA_AVAILABLE (init a) = a"
  "isRepeated (init a) = False"
  by (simp_all add: init_def)

lemma play_song_found:
  "dict_get (musicLibrary s) i = Some sg \<Longrightarrow>
   playlist (play_song s i) = [sg] \<and> currentIndex (play_song s i) = 0"
  by (simp add: play_song_def Let_def show_audio_unavailable_def split: option.splits)

subsection \<open>The queue invariant\<close>





subsection \<open>Selecting an unknown song\<close>

text \<open>
  Claim C5. \<^verbatim>\<open>_play_song\<close> with an id that is not a key of the catalog returns the state
  it was given: queue, cursor, liked set, player (state and calls received), notices and
  every widget are unchanged, and the event raises no exception.
\<close>

theorem play_song_unknown_id_noop:
  "i \<notin> set (dict_keys (musicLibrary s)) \<Longrightarrow>
   play_song s i = s \<and> step (PlaySong i) s = Inr s"
  by (simp add: play_song_def dict_get_def dict_keys_def map_of_eq_None_iff [THEN iffD2])

theorem play_song_unknown_id_noop_witness:
  "99 \<notin> set (dict_keys (musicLibrary (init True)))
   \<and> play_song (init True) 99 = init True
   \<and> step (PlaySong 99) (init True) = Inr (init True)"
  using play_song_unknown_id_noop [of 99 "init True"] by (simp add: init_library_keys)

subsection \<open>End of media\<close>

text \<open>
  Claim C9. On the end-of-media status, with a player present: when repeat is on, the
  player receives exactly \<^verbatim>\<open>setPosition(0)\<close> and \<^verbatim>\<open>play()\<close>, and nothing but the player
  changes (queue and cursor in particular); when repeat is off the state is unchanged, so
  no call is made and the queue does not advance. Without a player the handler returns at
  once.
\<close>

theorem on_media_ended:
  "(player s = Some p \<and> MULTIMEDIA_AVAILABLE s \<and> isRepeated s \<longrightarrow>
      on_media_status s EndOfMedia = s\<lparr>player := Some (player_play (player_setPosition 0 p))\<rparr>
      \<and> commands (player_play (player_setPosition 0 p)) = commands p @ [SetPosition 0, Play]
      \<and> playlist (on_media_status s EndOfMedia) = playlist s
      \<and> currentIndex (on_media_status s EndOfMedia) = currentIndex s)
   \<and> (\<not> isRepeated s \<longrightarrow> on_media_status s EndOfMedia = s)
   \<and> (player s = None \<longrightarrow> on_media_status s EndOfMedia = s)"
  by (simp add: on_media_status_def player_play_def player_setPosition_def split: option.splits)

theorem on_media_ended_witness:
  "player (toggle_repeat (init True)) = Some (player_setVolume 70 new_player)
   \<and> isRepeated (toggle_repeat (init True))
   \<and> on_media_status (toggle_repeat (init True)) EndOfMedia
       = (toggle_repeat (init True))
           \<lparr>player := Some (player_play (player_setPosition 0 (player_setVolume 70 new_player)))\<rparr>
   \<and> commands (player_play (player_setPosition 0 (player_setVolume 70 new_player)))
       = [SetVolume 70, SetPosition 0, Play]
   \<and> \<not> isRepeated (init True)
   \<and> on_media_status (init True) EndOfMedia = init True
   \<and> player (init False) = None
   \<and> on_media_status (init False) EndOfMedia = init False"
  using on_media_ended [of "toggle_repeat (init True)" "player_setVolume 70 new_player"]
    on_media_ended [of "init True"] on_media_ended [of "init False"]
  by (simp add: init_player toggle_repeat_def player_setVolume_def new_player_def)

lemma play_song_likedSongs: "likedSongs (play_song s i) = likedSongs s"
  by (simp add: play_song_def Let_def show_audio_unavailable_def split: option.splits)

lemma init_likedSongs: "likedSongs (init a) = {}"
  by (simp add: init_def)

lemma demo_ids: "song_id (demo ! 0) = 1" "song_id (demo ! 1) = 2"
  by (simp_all add: demo_def)

lemma init_volume: "current_volume (init a) = 70" "volume (init a) = 70" "prevVol (init a) = None"
  by (cases a; simp add: init_def current_volume_def player_setVolume_def new_player_def clamp_volume_def)+

lemma init_play_player:
  "player (play_song (init True) i) =
     (case dict_get (musicLibrary (init True)) i of
        None \<Rightarrow> Some (player_setVolume 70 new_player)
      | Some sg \<Rightarrow> Some (player_play (player_setMedia (audio sg) (player_setVolume 70 new_player))))"
  by (simp add: play_song_def Let_def init_player split: option.splits)

lemma play_song_flag: "MULTIMEDIA_AVAILABLE (play_song s i) = MULTIMEDIA_AVAILABLE s"
  by (simp add: play_song_def Let_def show_audio_unavailable_def split: option.splits)

subsection \<open>Liking the current song\<close>

text \<open>
  Claim C4. With the cursor on a song of the queue, \<^verbatim>\<open>_toggle_like\<close> flips the membership
  of that song's id in the liked set and leaves every other id, the queue and the cursor
  as they were; applied twice it gives back the liked set it started from. With a
  negative cursor or an empty queue it returns the state unchanged.
\<close>

theorem toggle_like_flips:
  "(0 \<le> currentIndex s \<and> currentIndex s < int (length (playlist s)) \<longrightarrow>
      (\<exists>s1 s2. toggle_like s = Inr s1 \<and> toggle_like s1 = Inr s2
         \<and> (song_id (playlist s ! nat (currentIndex s)) \<in> likedSongs s1
              \<longleftrightarrow> song_id (playlist s ! nat (currentIndex s)) \<notin> likedSongs s)
         \<and> likedSongs s1 - {song_id (playlist s ! nat (currentIndex s))}
             = likedSongs s - {song_id (playlist s ! nat (currentIndex s))}
         \<and> playlist s1 = playlist s \<and> currentIndex s1 = currentIndex s
         \<and> likedSongs s2 = likedSongs s))
   \<and> (currentIndex s < 0 \<or> playlist s = [] \<longrightarrow> toggle_like s = Inr s)"
  by (auto simp add: toggle_like_def py_index_def Let_def button_setText_def)

theorem toggle_like_flips_witness:
  "0 \<le> currentIndex (play_song (init True) 1)
   \<and> currentIndex (play_song (init True) 1) < int (length (playlist (play_song (init True) 1)))
   \<and> (\<exists>s1 s2. toggle_like (play_song (init True) 1) = Inr s1 \<and> toggle_like s1 = Inr s2
         \<and> likedSongs (play_song (init True) 1) = {}
         \<and> 1 \<in> likedSongs s1 \<and> likedSongs s2 = {})
   \<and> currentIndex (init True) < 0
   \<and> toggle_like (init True) = Inr (init True)"
proof -
  let ?s = "play_song (init True) 1"
  have q: "playlist ?s = [demo ! 0]" "currentIndex ?s = 0"
    using play_song_found [OF init_library_get(1), of True] by simp_all
  have l: "likedSongs ?s = {}" by (simp add: play_song_likedSongs init_likedSongs)
  show ?thesis
    using toggle_like_flips [of ?s] toggle_like_flips [of "init True"]
    by (auto simp add: q l demo_ids init_queue)
qed

subsection \<open>Mute\<close>

lemma toggle_mute_None:
  "player s = None \<Longrightarrow>
   player (toggle_mute s) = None
   \<and> volume (toggle_mute s) = (if volume s = 0 then clamp_volume (getattr_prevVol s) else 0)
   \<and> prevVol (toggle_mute s) = (if volume s = 0 then prevVol s else Some (volume s))"
  by (simp add: toggle_mute_def Let_def volume_setValue_def set_volume_def clamp_volume_def)

lemma toggle_mute_Some:
  "player s = Some p \<Longrightarrow>
   (\<exists>p'. player (toggle_mute s) = Some p'
      \<and> p_volume p' = (if p_volume p = 0 then clamp_volume (getattr_prevVol s) else 0))
   \<and> volume (toggle_mute s) = (if p_volume p = 0 then clamp_volume (getattr_prevVol s) else 0)
   \<and> prevVol (toggle_mute s) = (if p_volume p = 0 then prevVol s else Some (p_volume p))"
  by (auto simp add: toggle_mute_def Let_def volume_setValue_def set_volume_def
      player_setVolume_def clamp_volume_def getattr_prevVol_def split: option.splits)

lemma toggle_mute_volume:
  "current_volume (toggle_mute s)
     = (if current_volume s = 0 then clamp_volume (getattr_prevVol s) else 0)
   \<and> volume (toggle_mute s)
     = (if current_volume s = 0 then clamp_volume (getattr_prevVol s) else 0)
   \<and> prevVol (toggle_mute s)
     = (if current_volume s = 0 then prevVol s else Some (current_volume s))"
proof (cases "player s")
  case None
  then show ?thesis using toggle_mute_None [OF None] by (simp add: current_volume_def)
next
  case (Some p)
  then show ?thesis using toggle_mute_Some [OF Some] by (auto simp add: current_volume_def)
qed

text \<open>
  Claim C3. Let \<open>v\<close> be the volume \<^verbatim>\<open>_toggle_mute\<close> reads (the player's volume, or the
  slider value without a player), \<open>0 \<le> v \<le> 100\<close>. Two calls give the volume \<open>v\<close> again.
  When \<open>v\<close> is not zero the first call stores \<open>v\<close> in \<^verbatim>\<open>_prevVol\<close> and sets the volume to
  zero; when \<open>v\<close> is zero the first call sets the volume to the stored value bounded to
  0..100, which is 70 when nothing was stored and the stored value itself when that lies
  in 0..100. A slider that agrees with the volume before the two calls agrees after them.
\<close>

theorem toggle_mute_twice:
  assumes "0 \<le> current_volume s" and "current_volume s \<le> 100"
  shows "current_volume (toggle_mute (toggle_mute s)) = current_volume s
     \<and> (current_volume s \<noteq> 0 \<longrightarrow>
          prevVol (toggle_mute s) = Some (current_volume s)
          \<and> current_volume (toggle_mute s) = 0)
     \<and> (current_volume s = 0 \<longrightarrow>
          current_volume (toggle_mute s) = clamp_volume (getattr_prevVol s)
          \<and> (prevVol s = None \<longrightarrow> current_volume (toggle_mute s) = 70)
          \<and> (\<forall>m. prevVol s = Some m \<and> 0 \<le> m \<and> m \<le> 100 \<longrightarrow> current_volume (toggle_mute s) = m))
     \<and> (volume s = current_volume s \<longrightarrow> volume (toggle_mute (toggle_mute s)) = volume s)"
  using assms toggle_mute_volume [of s] toggle_mute_volume [of "toggle_mute s"]
  by (auto simp add: getattr_prevVol_def clamp_volume_def split: if_splits)

theorem toggle_mute_twice_witness:
  "current_volume (init True) = 70
   \<and> current_volume (toggle_mute (init True)) = 0
   \<and> prevVol (toggle_mute (init True)) = Some 70
   \<and> current_volume (toggle_mute (toggle_mute (init True))) = 70
   \<and> volume (toggle_mute (toggle_mute (init True))) = 70
   \<and> current_volume (toggle_mute (toggle_mute (toggle_mute (init True)))) = 0
   \<and> current_volume (init False) = 70
   \<and> current_volume (toggle_mute (toggle_mute (init False))) = 70
   \<and> current_volume (volume_setValue 0 (init False)) = 0
   \<and> prevVol (volume_setValue 0 (init False)) = None
   \<and> current_volume (toggle_mute (volume_setValue 0 (init False))) = 70
   \<and> current_volume (toggle_mute (toggle_mute (volume_setValue 0 (init False)))) = 0"
proof -
  have a: "current_volume (toggle_mute (init True)) = 0" "prevVol (toggle_mute (init True)) = Some 70"
    "current_volume (toggle_mute (toggle_mute (init True))) = 70"
    "volume (toggle_mute (toggle_mute (init True))) = 70"
    using toggle_mute_twice [of "init True"] by (simp_all add: init_volume)
  have b: "current_volume (toggle_mute (toggle_mute (toggle_mute (init True)))) = 0"
    using toggle_mute_twice [of "toggle_mute (init True)"] by (simp add: a)
  have c: "current_volume (toggle_mute (toggle_mute (init False))) = 70"
    using toggle_mute_twice [of "init False"] by (simp add: init_volume)
  have d: "current_volume (volume_setValue 0 (init False)) = 0"
    "prevVol (volume_setValue 0 (init False)) = None"
    by (simp_all add: volume_setValue_def set_volume_def current_volume_def init_def)
  have e: "current_volume (toggle_mute (volume_setValue 0 (init False))) = 70"
    "current_volume (toggle_mute (toggle_mute (volume_setValue 0 (init False)))) = 0"
    using toggle_mute_twice [of "volume_setValue 0 (init False)"] by (simp_all add: d)
  show ?thesis using a b c d e by (simp add: init_volume)
qed

subsection \<open>Play and pause\<close>

text \<open>
  Claim C8, as the code has it. With a player present: when the player reports the playing
  state, \<^verbatim>\<open>_toggle_play\<close> sends \<^verbatim>\<open>pause()\<close> and a loaded player becomes paused; in every
  other player state (paused, or stopped as before the first song is selected) it sends
  \<^verbatim>\<open>play()\<close> and a loaded player becomes playing; nothing but the player changes. Without
  a player the only change is the notice.
\<close>

theorem toggle_play_cases:
  "(player s = Some p \<and> MULTIMEDIA_AVAILABLE s \<and> p_state p = PlayingState \<longrightarrow>
      toggle_play s = s\<lparr>player := Some (player_pause p)\<rparr>
      \<and> commands (player_pause p) = commands p @ [Pause]
      \<and> (p_media p \<noteq> None \<longrightarrow> p_state (player_pause p) = PausedState))
   \<and> (player s = Some p \<and> p_state p \<noteq> PlayingState \<longrightarrow>
      toggle_play s = s\<lparr>player := Some (player_play p)\<rparr>
      \<and> commands (player_play p) = commands p @ [Play]
      \<and> (p_media p \<noteq> None \<longrightarrow> p_state (player_play p) = PlayingState))
   \<and> (player s = None \<longrightarrow>
      toggle_play s = s\<lparr>notices := notices s @
        [(''Audio unavailable'', ''Cannot play without multimedia backend.'')]\<rparr>)"
  by (simp add: toggle_play_def player_pause_def player_play_def)

theorem toggle_play_cases_witness:
  "player (play_song (init True) 1)
     = Some (player_play (player_setMedia (audio (demo ! 0)) (player_setVolume 70 new_player)))
   \<and> p_state (player_play (player_setMedia (audio (demo ! 0)) (player_setVolume 70 new_player)))
       = PlayingState
   \<and> toggle_play (play_song (init True) 1)
       = (play_song (init True) 1)\<lparr>player := Some (player_pause (player_play
            (player_setMedia (audio (demo ! 0)) (player_setVolume 70 new_player))))\<rparr>
   \<and> p_state (player_pause (player_play
            (player_setMedia (audio (demo ! 0)) (player_setVolume 70 new_player)))) = PausedState
   \<and> toggle_play (toggle_play (play_song (init True) 1))
       = (toggle_play (play_song (init True) 1))\<lparr>player := Some (player_play (player_pause
            (player_play (player_setMedia (audio (demo ! 0)) (player_setVolume 70 new_player)))))\<rparr>
   \<and> p_state (player_play (player_pause (player_play
            (player_setMedia (audio (demo ! 0)) (player_setVolume 70 new_player))))) = PlayingState
   \<and> toggle_play (init True) = (init True)\<lparr>player := Some (player_play (player_setVolume 70 new_player))\<rparr>
   \<and> commands (player_play (player_setVolume 70 new_player)) = [SetVolume 70, Play]
   \<and> player (init False) = None
   \<and> toggle_play (init False) = (init False)\<lparr>notices :=
        [(''Audio unavailable'', ''Cannot play without multimedia backend.'')]\<rparr>"
proof -
  let ?p1 = "player_play (player_setMedia (audio (demo ! 0)) (player_setVolume 70 new_player))"
  let ?s1 = "play_song (init True) 1"
  have p1: "player ?s1 = Some ?p1" by (simp add: init_play_player init_library_get)
  have f1: "MULTIMEDIA_AVAILABLE ?s1" by (simp add: play_song_flag init_player)
  have st1: "p_state ?p1 = PlayingState" "p_media ?p1 \<noteq> None"
    by (simp_all add: player_play_def player_setMedia_def)
  have t1: "toggle_play ?s1 = ?s1\<lparr>player := Some (player_pause ?p1)\<rparr>"
    "p_state (player_pause ?p1) = PausedState"
    using toggle_play_cases [of ?s1 ?p1] p1 f1 st1 by simp_all
  have p2: "player (toggle_play ?s1) = Some (player_pause ?p1)" by (simp add: t1(1))
  have m2: "p_media (player_pause ?p1) \<noteq> None"
    by (simp add: player_pause_def player_play_def player_setMedia_def)
  have t2: "toggle_play (toggle_play ?s1)
      = (toggle_play ?s1)\<lparr>player := Some (player_play (player_pause ?p1))\<rparr>"
    "p_state (player_play (player_pause ?p1)) = PlayingState"
    using toggle_play_cases [of "toggle_play ?s1" "player_pause ?p1"] p2 t1(2) m2 by simp_all
  have t3: "toggle_play (init True)
      = (init True)\<lparr>player := Some (player_play (player_setVolume 70 new_player))\<rparr>"
    "commands (player_play (player_setVolume 70 new_player)) = [SetVolume 70, Play]"
    using toggle_play_cases [of "init True" "player_setVolume 70 new_player"]
    by (simp_all add: init_player player_setVolume_def new_player_def)
  have t4: "toggle_play (init False) = (init False)\<lparr>notices :=
        [(''Audio unavailable'', ''Cannot play without multimedia backend.'')]\<rparr>"
    using toggle_play_cases [of "init False"] by (simp add: init_player init_def)
  show ?thesis using p1 st1 t1 t2 t3 t4 by (simp add: init_player)
qed

text \<open>
  In the initial state, where no song has been selected, \<^verbatim>\<open>_toggle_play\<close> is not a no-op:
  the player receives \<^verbatim>\<open>play()\<close>.
\<close>

theorem toggle_play_idle_counterexample:
  "playlist (init True) = [] \<and> currentIndex (init True) = - 1
   \<and> map_option commands (player (init True)) = Some [SetVolume 70]
   \<and> map_option commands (player (toggle_play (init True))) = Some [SetVolume 70, Play]
   \<and> toggle_play (init True) \<noteq> init True"
proof -
  have c: "map_option commands (player (init True)) = Some [SetVolume 70]"
    "map_option commands (player (toggle_play (init True))) = Some [SetVolume 70, Play]"
    by (simp_all add: toggle_play_def init_player player_play_def player_setVolume_def new_player_def)
  then have "toggle_play (init True) \<noteq> init True" by auto
  with c show ?thesis by (simp add: init_queue)
qed

subsection \<open>Skipping\<close>






subsection \<open>Search\<close>







subsection \<open>Selecting a known song\<close>

lemma play_song_known_id:
  assumes "dict_get (musicLibrary s) i = Some sg"
  shows "playlist (play_song s i) = [sg]"
    and "currentIndex (play_song s i) = 0"
    and "playBtn (play_song s i) = PauseGlyph"
    and "trackTitle (play_song s i) = title sg"
    and "trackArtist (play_song s i) = artist sg"
    and "likedSongs (play_song s i) = likedSongs s"
    and "likeBtn (play_song s i) = button_setChecked (i \<in> likedSongs s) (likeBtn s)"
    and "player s = Some p \<Longrightarrow> MULTIMEDIA_AVAILABLE s \<Longrightarrow>
         player (play_song s i) = Some (player_play (player_setMedia (audio sg) p))
         \<and> commands (player_play (player_setMedia (audio sg) p))
             = commands p @ [SetMedia (audio sg), Play]
         \<and> p_state (player_play (player_setMedia (audio sg) p)) = PlayingState
         \<and> notices (play_song s i) = notices s"
    and "player s = None \<Longrightarrow>
         player (play_song s i) = None
         \<and> notices (play_song s i) = notices s @
              [(''Audio unavailable'',
                ''Audio playback isn't available in this environment. The UI will still work.'')]"
  using assms
  by (simp_all add: play_song_def Let_def show_audio_unavailable_def player_play_def
      player_setMedia_def split: option.splits)

lemma step_like_button_plain:
  assumes "\<not> checkable (likeBtn s)" "step e s = Inr s'"
  shows "\<not> checkable (likeBtn s')"
  using assms
  by (cases e)
    (auto simp add: go_page_def show_search_placeholder_def set_search_results_def
      on_search_def Let_def play_song_def show_audio_unavailable_def toggle_play_def
      prev_def next_def toggle_shuffle_def toggle_repeat_def toggle_like_def
      button_setChecked_def button_setText_def
      volume_setValue_def set_volume_def toggle_mute_def seeking_def seek_position_def
      on_position_changed_def on_duration_changed_def on_play_state_def on_media_status_def
      upload_song_def create_playlist_def split: option.splits if_splits sum.splits)

lemma play_song_like_button_plain:
  "\<not> checkable (likeBtn s) \<Longrightarrow> likeBtn (play_song s i) = likeBtn s"
  by (simp add: play_song_def Let_def show_audio_unavailable_def button_setChecked_def
      split: option.splits)

lemma run_like_button_plain:
  "\<not> checkable (likeBtn s) \<Longrightarrow> run es s = Inr s' \<Longrightarrow> \<not> checkable (likeBtn s')"
proof (induction es arbitrary: s)
  case Nil
  then show ?case by simp
next
  case (Cons e es)
  from Cons.prems(2) obtain s1 where s1: "step e s = Inr s1" "run es s1 = Inr s'"
    by (auto split: sum.splits)
  from step_like_button_plain [OF Cons.prems(1) s1(1)] Cons.IH s1(2) show ?case by blast
qed

text \<open>
  The like button is built as a plain button, so in every state the program reaches
  \<^verbatim>\<open>_play_song\<close> leaves it, checked state and caption, as it was.
\<close>

lemma reachable_like_button_unchanged:
  "run es (init a) = Inr s \<Longrightarrow> likeBtn (play_song s i) = likeBtn s \<and> \<not> checked (likeBtn s)"
proof -
  assume r: "run es (init a) = Inr s"
  have c: "\<not> checkable (likeBtn (init a))" by (simp add: init_def)
  have k: "\<not> checkable (likeBtn s)" by (rule run_like_button_plain [OF c r])
  have "\<not> checked (likeBtn s') \<and> \<not> checkable (likeBtn s')"
    if "run es' s0 = Inr s'" "\<not> checked (likeBtn s0)" "\<not> checkable (likeBtn s0)" for es' s0 s'
    using that
  proof (induction es' arbitrary: s0)
    case Nil
    then show ?case by simp
  next
    case (Cons e es')
    from Cons.prems(1) obtain s1 where s1: "step e s0 = Inr s1" "run es' s1 = Inr s'"
      by (auto split: sum.splits)
    have "\<not> checked (likeBtn s1)"
      using s1(1) Cons.prems(2,3)
      by (cases e)
        (auto simp add: go_page_def show_search_placeholder_def set_search_results_def
          on_search_def Let_def play_song_def show_audio_unavailable_def toggle_play_def
          prev_def next_def toggle_shuffle_def toggle_repeat_def toggle_like_def
          button_setChecked_def button_setText_def
          volume_setValue_def set_volume_def toggle_mute_def seeking_def seek_position_def
          on_position_changed_def on_duration_changed_def on_play_state_def
          on_media_status_def upload_song_def create_playlist_def
          split: option.splits if_splits sum.splits)
    moreover have "\<not> checkable (likeBtn s1)"
      by (rule step_like_button_plain [OF Cons.prems(3) s1(1)])
    ultimately show ?case using Cons.IH [OF s1(2)] by blast
  qed
  from this [OF r] have "\<not> checked (likeBtn s)" by (simp add: init_def)
  with play_song_like_button_plain [OF k] show ?thesis by simp
qed

text \<open>
  Claim C1. \<^verbatim>\<open>_play_song\<close> on a known id makes the queue that one song with cursor \<open>0\<close>,
  sends the media and \<^verbatim>\<open>play()\<close> to the player or shows the notice, and sets the play
  caption (\<open>play_song_known_id\<close>); the like indicator, though, is not set from the liked
  set. From the initial state with a player: song 1 is played and liked, song 2 is played;
  the like button then shows the full heart for song 2, which is not liked. Song 2 is then
  liked and unliked and song 1 is played again; the like button shows the outline heart,
  unchecked, for song 1, which is liked.
\<close>

theorem play_song_like_button_stale:
  "map_sum id likedSongs (run [PlaySong 1, ToggleLike, PlaySong 2] (init True)) = Inr {1}
   \<and> map_sum id playlist (run [PlaySong 1, ToggleLike, PlaySong 2] (init True)) = Inr [demo ! 1]
   \<and> map_sum id likeBtn (run [PlaySong 1, ToggleLike, PlaySong 2] (init True))
       = Inr \<lparr>checkable = False, checked = False, caption = HeartFull\<rparr>
   \<and> map_sum id likedSongs
        (run [PlaySong 1, ToggleLike, PlaySong 2, ToggleLike, ToggleLike, PlaySong 1] (init True))
       = Inr {1}
   \<and> map_sum id playlist
        (run [PlaySong 1, ToggleLike, PlaySong 2, ToggleLike, ToggleLike, PlaySong 1] (init True))
       = Inr [demo ! 0]
   \<and> map_sum id likeBtn
        (run [PlaySong 1, ToggleLike, PlaySong 2, ToggleLike, ToggleLike, PlaySong 1] (init True))
       = Inr \<lparr>checkable = False, checked = False, caption = HeartOutline\<rparr>"
  by code_simp

end
